theory Spec2Isabelle
  imports Complex_Main "HOL-Library.Signed_Division"
begin

section \<open>Queue metrics of the message broker (broker/metrics.go)\<close>

text \<open>
  The file keeps, for one named queue, three event counters and a latency histogram in
  the process-wide Prometheus registry, and a table \<open>sentTimes\<close> from events to
  the time they were sent. \<open>send\<close> is called before an event is queued, \<open>receive\<close>
  after it has been taken from the queue.

  The embedding is sequential: one call runs at a time, so \<open>Lock\<close> and the deferred
  \<open>Unlock\<close> of the embedded mutex do nothing and are left out.
\<close>

subsection \<open>Constants\<close>

definition brokerQueueSubsystem :: string where
  "brokerQueueSubsystem = ''broker''"

definition queueLatencyKey :: string where
  "queueLatencyKey = ''queue_duration_seconds''"

definition addsKey :: string where
  "addsKey = ''queue_adds''"

definition addLabel :: string where
  "addLabel = ''Add''"

definition updateLabel :: string where
  "updateLabel = ''Update''"

definition deleteLabel :: string where
  "deleteLabel = ''Delete''"

subsection \<open>Events\<close>

text \<open>
  Modelled from the spec: package \<open>events\<close> (the interface \<open>events.Event\<close> and the
  constants \<open>events.Added\<close>, \<open>events.Modified\<close>, \<open>events.Deleted\<close>) is not among the
  sources. The spec gives the operation kind as an enumeration of three values and speaks
  of kinds outside this set; \<open>Unrecognized\<close> stands for every such value.

  An event is a value of some type \<open>'e\<close> of comparable Go values (the spec: an opaque,
  comparable identity usable as a map key); its method \<open>Type()\<close> is the function
  \<open>Type :: 'e \<Rightarrow> event_type\<close> that \<open>send\<close> takes as its first argument. Two events are
  the same key of \<open>sentTimes\<close> exactly when they are equal in \<open>'e\<close>. The nil interface
  value, on which \<open>evt.Type()\<close> panics, and a value that Go cannot hash as a map key are
  not events and are not in \<open>'e\<close>.

  The three constants are the cases of one Go \<open>switch\<close>, so they are distinct (equal
  constant cases do not compile), as the constructors are.
\<close>

datatype event_type = Added | Modified | Deleted | Unrecognized string

subsection \<open>Time\<close>

text \<open>
  A reading of the clock (\<open>time.Time\<close>, as \<open>time.Now()\<close> returns it) is a number of
  nanoseconds; a \<open>time.Duration\<close> is a number of nanoseconds too. \<open>time.Now()\<close> is an
  input of the model: every call that may read the clock takes the reading \<open>now\<close>.
  \<open>Seconds\<close> is written as in the Go library, with truncating division; the
  floating-point result is modelled by the real number it approximates. Readings and
  durations are unbounded integers: Go's 64-bit \<open>Duration\<close> saturates after about 292
  years, which the model leaves out.
\<close>

type_synonym time = int

definition Second :: int where
  "Second = 1000000000"

definition Since :: "time \<Rightarrow> time \<Rightarrow> int" where
  "Since now t = now - t"

definition Seconds :: "int \<Rightarrow> real" where
  "Seconds d =
     (let sec = d sdiv Second; nsec = d smod Second
      in real_of_int sec + real_of_int nsec / 1000000000)"

subsection \<open>The Prometheus client\<close>

text \<open>
  The part of the client library's contract that the file uses. A metric vector
  (\<open>CounterVec\<close>, \<open>HistogramVec\<close>) has options, a list of label names and one child per
  list of label values. The children are the state: a counter child holds its count, a
  histogram child the sequence of the values observed so far (the library keeps their
  count, their sum and the count per bucket, all functions of the sequence). The file
  holds a child by reference; here the reference is the list of label values that
  identifies the child. Nothing in the file deletes a child, so a reference stays valid.
  A count is an unbounded natural number.
\<close>

datatype panic =
  InvalidBuckets | InconsistentCardinality | InvalidLabelValue | CounterCannotDecrease

record opts =
  Namespace :: string
  Subsystem :: string
  Name :: string
  Help :: string

definition BuildFQName :: "string \<Rightarrow> string \<Rightarrow> string \<Rightarrow> string" where
  "BuildFQName namespace subsystem name =
     (if name = [] then []
      else if namespace \<noteq> [] \<and> subsystem \<noteq> [] then namespace @ ''_'' @ subsystem @ ''_'' @ name
      else if namespace \<noteq> [] then namespace @ ''_'' @ name
      else if subsystem \<noteq> [] then subsystem @ ''_'' @ name
      else name)"

definition fqName :: "opts \<Rightarrow> string" where
  "fqName opt = BuildFQName (Namespace opt) (Subsystem opt) (Name opt)"

fun fill_buckets :: "nat \<Rightarrow> real \<Rightarrow> real \<Rightarrow> real list" where
  "fill_buckets 0 start factor = []"
| "fill_buckets (Suc n) start factor = start # fill_buckets n (start * factor) factor"

definition ExponentialBuckets :: "real \<Rightarrow> real \<Rightarrow> int \<Rightarrow> panic + real list" where
  "ExponentialBuckets start factor count =
     (if count < 1 then Inl InvalidBuckets
      else if start \<le> 0 then Inl InvalidBuckets
      else if factor \<le> 1 then Inl InvalidBuckets
      else Inr (fill_buckets (nat count) start factor))"

record registry =
  adds :: "string list \<rightharpoonup> nat"
  latency :: "string list \<rightharpoonup> real list"

definition latency_opts :: opts where
  "latency_opts =
     \<lparr>Namespace = [], Subsystem = brokerQueueSubsystem, Name = queueLatencyKey,
      Help = ''How long in seconds an event stays in the queue before being requested.''\<rparr>"

definition latency_Buckets :: "panic + real list" where
  "latency_Buckets = ExponentialBuckets (10 / 10 ^ 9) 10 10"

definition latency_labels :: "string list" where
  "latency_labels = [''name'']"

definition adds_opts :: opts where
  "adds_opts =
     \<lparr>Namespace = [], Subsystem = brokerQueueSubsystem, Name = addsKey,
      Help = ''Total number of events handled by the queue''\<rparr>"

definition adds_labels :: "string list" where
  "adds_labels = [''name'', ''type'']"

definition counter_value :: "registry \<Rightarrow> string list \<Rightarrow> nat" where
  "counter_value r c = (case adds r c of None \<Rightarrow> 0 | Some v \<Rightarrow> v)"

definition observed :: "registry \<Rightarrow> string list \<Rightarrow> real list" where
  "observed r h = (case latency r h of None \<Rightarrow> [] | Some vs \<Rightarrow> vs)"

text \<open>
  A label value must be valid UTF-8 (Go's \<open>utf8.ValidString\<close>). A string is a list of
  bytes; the well-formed sequences are one byte below \<open>0x80\<close>, or a lead byte
  \<open>0xC2..0xDF\<close>, \<open>0xE0..0xEF\<close> or \<open>0xF0..0xF4\<close> followed by one, two or three
  continuation bytes \<open>0x80..0xBF\<close>, where the first continuation byte is narrowed after
  \<open>0xE0\<close>, \<open>0xED\<close>, \<open>0xF0\<close> and \<open>0xF4\<close> (no overlong form, no surrogate,
  nothing above \<open>U+10FFFF\<close>).
\<close>

definition continuation :: "nat \<Rightarrow> bool" where
  "continuation b = (128 \<le> b \<and> b \<le> 191)"

fun valid_bytes :: "nat list \<Rightarrow> bool" where
  "valid_bytes [] = True"
| "valid_bytes (b # bs) =
     (if b < 128 then valid_bytes bs
      else if 194 \<le> b \<and> b \<le> 223 then
        (case bs of
           c1 # rest \<Rightarrow> continuation c1 \<and> valid_bytes rest
         | _ \<Rightarrow> False)
      else if 224 \<le> b \<and> b \<le> 239 then
        (case bs of
           c1 # c2 # rest \<Rightarrow>
             (if b = 224 then 160 \<le> c1 \<and> c1 \<le> 191
              else if b = 237 then 128 \<le> c1 \<and> c1 \<le> 159
              else continuation c1)
             \<and> continuation c2 \<and> valid_bytes rest
         | _ \<Rightarrow> False)
      else if 240 \<le> b \<and> b \<le> 244 then
        (case bs of
           c1 # c2 # c3 # rest \<Rightarrow>
             (if b = 240 then 144 \<le> c1 \<and> c1 \<le> 191
              else if b = 244 then 128 \<le> c1 \<and> c1 \<le> 143
              else continuation c1)
             \<and> continuation c2 \<and> continuation c3 \<and> valid_bytes rest
         | _ \<Rightarrow> False)
      else False)"

definition ValidString :: "string \<Rightarrow> bool" where
  "ValidString s = valid_bytes (map of_char s)"

text \<open>
  \<open>WithLabelValues\<close> first validates the label values: it panics when their number is
  not the number of labels, and when one of them is not valid UTF-8. Otherwise it returns
  the child for the label values and creates it, with count zero or no observation, when
  there is none yet. \<open>Add\<close> panics on a negative value; \<open>Inc\<close> and \<open>Observe\<close>
  never panic.
\<close>

definition validateLabelValues :: "string list \<Rightarrow> nat \<Rightarrow> panic option" where
  "validateLabelValues vals expectedNumberOfValues =
     (if length vals \<noteq> expectedNumberOfValues then Some InconsistentCardinality
      else if list_all ValidString vals then None
      else Some InvalidLabelValue)"

definition adds_WithLabelValues :: "string list \<Rightarrow> registry \<Rightarrow> panic + registry \<times> string list" where
  "adds_WithLabelValues lvs r =
     (case validateLabelValues lvs (length adds_labels) of
        Some p \<Rightarrow> Inl p
      | None \<Rightarrow>
          (case adds r lvs of
             None \<Rightarrow> Inr (r\<lparr>adds := (adds r)(lvs \<mapsto> 0)\<rparr>, lvs)
           | Some v \<Rightarrow> Inr (r, lvs)))"

definition latency_WithLabelValues :: "string list \<Rightarrow> registry \<Rightarrow> panic + registry \<times> string list" where
  "latency_WithLabelValues lvs r =
     (case validateLabelValues lvs (length latency_labels) of
        Some p \<Rightarrow> Inl p
      | None \<Rightarrow>
          (case latency r lvs of
             None \<Rightarrow> Inr (r\<lparr>latency := (latency r)(lvs \<mapsto> [])\<rparr>, lvs)
           | Some vs \<Rightarrow> Inr (r, lvs)))"

definition counter_Add :: "int \<Rightarrow> string list \<Rightarrow> registry \<Rightarrow> panic + registry" where
  "counter_Add v c r =
     (if v < 0 then Inl CounterCannotDecrease
      else Inr (r\<lparr>adds := (adds r)(c \<mapsto> counter_value r c + nat v)\<rparr>))"

definition counter_Inc :: "string list \<Rightarrow> registry \<Rightarrow> registry" where
  "counter_Inc c r = r\<lparr>adds := (adds r)(c \<mapsto> counter_value r c + 1)\<rparr>"

definition Observe :: "string list \<Rightarrow> real \<Rightarrow> registry \<Rightarrow> registry" where
  "Observe h v r = r\<lparr>latency := (latency r)(h \<mapsto> observed r h @ [v])\<rparr>"

subsection \<open>The metrics of one queue\<close>

record 'e metrics =
  addCounter :: "string list"
  updateCounter :: "string list"
  deleteCounter :: "string list"
  latencyObserver :: "string list"
  sentTimes :: "'e \<rightharpoonup> time"

text \<open>A panic ends the run: the first one is the result.\<close>

definition and_then :: "panic + 'a \<Rightarrow> ('a \<Rightarrow> panic + 'b) \<Rightarrow> panic + 'b" where
  "and_then x f = (case x of Inl p \<Rightarrow> Inl p | Inr a \<Rightarrow> f a)"

definition newMetrics :: "string \<Rightarrow> registry \<Rightarrow> panic + registry \<times> 'e metrics" where
  "newMetrics name r0 =
     and_then (adds_WithLabelValues [name, addLabel] r0) (\<lambda>(r1, addCounter').
     and_then (counter_Add 0 addCounter' r1) (\<lambda>r2.
     and_then (adds_WithLabelValues [name, updateLabel] r2) (\<lambda>(r3, updateCounter').
     and_then (counter_Add 0 updateCounter' r3) (\<lambda>r4.
     and_then (adds_WithLabelValues [name, deleteLabel] r4) (\<lambda>(r5, deleteCounter').
     and_then (counter_Add 0 deleteCounter' r5) (\<lambda>r6.
     and_then (latency_WithLabelValues [name] r6) (\<lambda>(r7, lattencyObserver).
     Inr (r7, \<lparr>addCounter = addCounter', updateCounter = updateCounter',
               deleteCounter = deleteCounter', latencyObserver = lattencyObserver,
               sentTimes = Map.empty\<rparr>))))))))"

text \<open>
  The state that \<open>send\<close> and \<open>receive\<close> work on is the registry together with the
  object the receiver \<open>m\<close> points to; \<open>None\<close> is the nil receiver.
\<close>

type_synonym 'e world = "registry \<times> 'e metrics option"

definition send :: "('e \<Rightarrow> event_type) \<Rightarrow> time \<Rightarrow> 'e \<Rightarrow> 'e world \<Rightarrow> 'e world" where
  "send Type now evt w =
     (case w of
        (r, None) \<Rightarrow> (r, None)
      | (r, Some m) \<Rightarrow>
          (let r' = (case Type evt of
                       Added \<Rightarrow> counter_Inc (addCounter m) r
                     | Modified \<Rightarrow> counter_Inc (updateCounter m) r
                     | Deleted \<Rightarrow> counter_Inc (deleteCounter m) r
                     | Unrecognized k \<Rightarrow> r)
           in case sentTimes m evt of
                None \<Rightarrow> (r', Some (m\<lparr>sentTimes := (sentTimes m)(evt \<mapsto> now)\<rparr>))
              | Some t \<Rightarrow> (r', Some m)))"

definition receive :: "time \<Rightarrow> 'e \<Rightarrow> 'e world \<Rightarrow> 'e world" where
  "receive now evt w =
     (case w of
        (r, None) \<Rightarrow> (r, None)
      | (r, Some m) \<Rightarrow>
          (case sentTimes m evt of
             Some startTime \<Rightarrow>
               (Observe (latencyObserver m) (Seconds (Since now startTime)) r,
                Some (m\<lparr>sentTimes := (sentTimes m)(evt := None)\<rparr>))
           | None \<Rightarrow> (r, Some m)))"

text \<open>What a caller can see of a world: the timestamp held for an event.\<close>

definition pending :: "'e world \<Rightarrow> 'e \<Rightarrow> time option" where
  "pending w evt = (case snd w of None \<Rightarrow> None | Some m \<Rightarrow> sentTimes m evt)"

text \<open>
  A tracker made by \<open>newMetrics name\<close> holds the three counters and the histogram of
  \<open>name\<close>; \<open>send\<close> and \<open>receive\<close> never change these four references.
\<close>

definition tracks :: "string \<Rightarrow> 'e metrics \<Rightarrow> bool" where
  "tracks name m =
     (addCounter m = [name, addLabel] \<and> updateCounter m = [name, updateLabel] \<and>
      deleteCounter m = [name, deleteLabel] \<and> latencyObserver m = [name])"

section \<open>Properties\<close>

lemma Seconds_eq: "Seconds d = real_of_int d / 1000000000"
proof -
  have "real_of_int d = real_of_int (d sdiv Second * Second + d smod Second)"
    by (simp only: sdiv_mult_smod_eq)
  also have "\<dots> = real_of_int (d sdiv Second) * 1000000000 + real_of_int (d smod Second)"
    by (simp add: Second_def)
  finally show ?thesis
    by (simp add: Seconds_def Let_def field_simps)
qed

subsection \<open>What send and receive do to a tracker that is present\<close>

lemma send_Some:
  "send Type now evt (r, Some m) =
     ((case Type evt of
         Added \<Rightarrow> counter_Inc (addCounter m) r
       | Modified \<Rightarrow> counter_Inc (updateCounter m) r
       | Deleted \<Rightarrow> counter_Inc (deleteCounter m) r
       | Unrecognized k \<Rightarrow> r),
      Some (case sentTimes m evt of
              None \<Rightarrow> m\<lparr>sentTimes := (sentTimes m)(evt \<mapsto> now)\<rparr>
            | Some t \<Rightarrow> m))"
  by (simp add: send_def Let_def split: option.split)

lemma latency_counter_Inc: "latency (counter_Inc c r) = latency r"
  by (simp add: counter_Inc_def)

lemma adds_counter_Inc: "adds (counter_Inc c r) = (adds r)(c \<mapsto> counter_value r c + 1)"
  by (simp add: counter_Inc_def)

lemma latency_fst_send: "latency (fst (send Type now evt (r, Some m))) = latency r"
  by (simp add: send_Some latency_counter_Inc split: event_type.split)

lemma observed_fst_send: "observed (fst (send Type now evt (r, Some m))) h = observed r h"
  by (simp add: observed_def latency_fst_send)

lemma pending_send:
  "pending (send Type now evt (r, Some m)) evt =
     Some (case sentTimes m evt of None \<Rightarrow> now | Some t0 \<Rightarrow> t0)"
  by (simp add: send_Some pending_def split: option.split)

lemma receive_Some_present:
  "sentTimes m evt = Some t0 \<Longrightarrow>
   receive now evt (r, Some m) =
     (Observe (latencyObserver m) (real_of_int (now - t0) / 1000000000) r,
      Some (m\<lparr>sentTimes := (sentTimes m)(evt := None)\<rparr>))"
  by (simp add: receive_def Seconds_eq Since_def)

lemma receive_absent: "pending w evt = None \<Longrightarrow> receive now evt w = w"
  by (cases w) (simp add: receive_def pending_def split: option.splits)

lemma latencyObserver_snd_send:
  "snd (send Type now evt (r, Some m)) = Some m' \<Longrightarrow> latencyObserver m' = latencyObserver m"
  by (auto simp add: send_Some split: option.splits)

subsection \<open>What newMetrics does to the registry\<close>

lemma labels_distinct:
  "addLabel \<noteq> updateLabel" "addLabel \<noteq> deleteLabel" "updateLabel \<noteq> deleteLabel"
  "updateLabel \<noteq> addLabel" "deleteLabel \<noteq> addLabel" "deleteLabel \<noteq> updateLabel"
  by (simp_all add: addLabel_def updateLabel_def deleteLabel_def)

lemma counter_value_upd:
  "counter_value (r\<lparr>adds := (adds r)(c \<mapsto> v)\<rparr>) c' = (if c' = c then v else counter_value r c')"
  by (simp add: counter_value_def)

lemma observed_adds_upd: "observed (r\<lparr>adds := a\<rparr>) h = observed r h"
  by (simp add: observed_def)

lemma labels_valid: "ValidString addLabel" "ValidString updateLabel" "ValidString deleteLabel"
  by (simp_all add: ValidString_def addLabel_def updateLabel_def deleteLabel_def)

lemma adds_WithLabelValues_ok:
  "ValidString name \<Longrightarrow> ValidString l \<Longrightarrow>
   adds_WithLabelValues [name, l] r =
     Inr (r\<lparr>adds := (adds r)([name, l] \<mapsto> counter_value r [name, l])\<rparr>, [name, l])"
  by (auto simp add: adds_WithLabelValues_def validateLabelValues_def adds_labels_def
      counter_value_def fun_upd_idem split: option.split)

lemma latency_WithLabelValues_ok:
  "ValidString name \<Longrightarrow>
   latency_WithLabelValues [name] r =
     Inr (r\<lparr>latency := (latency r)([name] \<mapsto> observed r [name])\<rparr>, [name])"
  by (auto simp add: latency_WithLabelValues_def validateLabelValues_def latency_labels_def
      observed_def fun_upd_idem split: option.split)

lemma counter_Add_zero:
  "counter_Add 0 c r = Inr (r\<lparr>adds := (adds r)(c \<mapsto> counter_value r c)\<rparr>)"
  by (simp add: counter_Add_def)

lemma newMetrics_result:
  "ValidString name \<Longrightarrow>
   newMetrics name r =
     Inr (r\<lparr>adds := (adds r)([name, addLabel] \<mapsto> counter_value r [name, addLabel],
                           [name, updateLabel] \<mapsto> counter_value r [name, updateLabel],
                           [name, deleteLabel] \<mapsto> counter_value r [name, deleteLabel]),
            latency := (latency r)([name] \<mapsto> observed r [name])\<rparr>,
          \<lparr>addCounter = [name, addLabel], updateCounter = [name, updateLabel],
           deleteCounter = [name, deleteLabel], latencyObserver = [name],
           sentTimes = Map.empty\<rparr>)"
  by (simp add: newMetrics_def and_then_def adds_WithLabelValues_ok counter_Add_zero
      latency_WithLabelValues_ok counter_value_upd observed_adds_upd labels_distinct
      labels_valid)

lemma newMetrics_invalid_name:
  "\<not> ValidString name \<Longrightarrow> newMetrics name r = Inl InvalidLabelValue"
  by (simp add: newMetrics_def and_then_def adds_WithLabelValues_def validateLabelValues_def
      adds_labels_def)

subsection \<open>Send, then receive\<close>

text \<open>
  Claim C1. One \<open>send\<close> of an event followed by one \<open>receive\<close> of the same event:
  after the \<open>send\<close> the table holds a timestamp \<open>ts\<close> for the event (the reading
  of the clock at the \<open>send\<close>, or the one already held when the event was in the table);
  the \<open>send\<close> observes nothing; the \<open>receive\<close> appends exactly one value to the
  histogram of the tracker and to no other, namely the time between \<open>ts\<close> and the
  reading of the clock at the \<open>receive\<close>, in seconds; it changes no counter; and it removes
  the event from the table.
\<close>

theorem send_then_receive_observes_once:
  "let w1 = send Type t1 evt (r, Some m);
       w2 = receive t2 evt w1;
       ts = (case sentTimes m evt of None \<Rightarrow> t1 | Some t0 \<Rightarrow> t0);
       h = latencyObserver m
   in pending w1 evt = Some ts
    \<and> latency (fst w1) = latency r
    \<and> latency (fst w2) = (latency r)(h \<mapsto> observed r h @ [real_of_int (t2 - ts) / 1000000000])
    \<and> adds (fst w2) = adds (fst w1)
    \<and> pending w2 evt = None"
proof -
  obtain r1 m1 where w1: "send Type t1 evt (r, Some m) = (r1, Some m1)"
    by (simp add: send_Some)
  define ts where "ts = (case sentTimes m evt of None \<Rightarrow> t1 | Some t0 \<Rightarrow> t0)"
  have p: "sentTimes m1 evt = Some ts"
    using pending_send [of Type t1 evt r m] by (simp add: w1 pending_def ts_def)
  have l: "latency r1 = latency r"
    using latency_fst_send [of Type t1 evt r m] by (simp add: w1)
  have h: "latencyObserver m1 = latencyObserver m"
    using latencyObserver_snd_send [of Type t1 evt r m m1] by (simp add: w1)
  have o: "observed r1 (latencyObserver m) = observed r (latencyObserver m)"
    by (simp add: observed_def l)
  show ?thesis
    by (simp add: Let_def w1 receive_Some_present [OF p] pending_def p h l o Observe_def
        flip: ts_def)
qed

theorem send_then_receive_observes_once_witness:
  "observed (fst (receive 7000000000 (1::nat)
       (send (\<lambda>e. Added) 2000000000 1
          (\<lparr>adds = Map.empty, latency = Map.empty\<rparr>,
           Some \<lparr>addCounter = [''q'', ''Add''], updateCounter = [''q'', ''Update''],
                 deleteCounter = [''q'', ''Delete''], latencyObserver = [''q''],
                 sentTimes = Map.empty\<rparr>)))) [''q''] = [5]"
  using send_then_receive_observes_once [of "\<lambda>e. Added" 2000000000 "1::nat"
      "\<lparr>adds = Map.empty, latency = Map.empty\<rparr>"
      "\<lparr>addCounter = [''q'', ''Add''], updateCounter = [''q'', ''Update''],
        deleteCounter = [''q'', ''Delete''], latencyObserver = [''q''],
        sentTimes = Map.empty\<rparr>" 7000000000]
  by (simp add: Let_def observed_def)

subsection \<open>A second send before the receive\<close>

text \<open>
  Claim C2. When the table already holds a timestamp \<open>t0\<close> for an event, another
  \<open>send\<close> of the event leaves the tracker as it is, so the table still holds \<open>t0\<close>;
  the \<open>receive\<close> that follows observes the time since \<open>t0\<close>, not since the
  second \<open>send\<close>.
\<close>

theorem duplicate_send_keeps_first_timestamp:
  "sentTimes m evt = Some t0 \<Longrightarrow>
   snd (send Type t1 evt (r, Some m)) = Some m
   \<and> pending (send Type t1 evt (r, Some m)) evt = Some t0
   \<and> latency (fst (receive t2 evt (send Type t1 evt (r, Some m)))) =
       (latency r)(latencyObserver m \<mapsto>
          observed r (latencyObserver m) @ [real_of_int (t2 - t0) / 1000000000])"
proof -
  assume p: "sentTimes m evt = Some t0"
  obtain r1 where w1: "send Type t1 evt (r, Some m) = (r1, Some m)"
    by (simp add: send_Some p)
  have l: "latency r1 = latency r"
    using latency_fst_send [of Type t1 evt r m] by (simp add: w1)
  have o: "observed r1 (latencyObserver m) = observed r (latencyObserver m)"
    by (simp add: observed_def l)
  show ?thesis
    by (simp add: w1 pending_def p receive_Some_present [OF p] Observe_def l o)
qed

theorem duplicate_send_keeps_first_timestamp_witness:
  "observed (fst (receive 9000000000 (1::nat)
       (send (\<lambda>e. Modified) 6000000000 1
          (\<lparr>adds = Map.empty, latency = Map.empty\<rparr>,
           Some \<lparr>addCounter = [''q'', ''Add''], updateCounter = [''q'', ''Update''],
                 deleteCounter = [''q'', ''Delete''], latencyObserver = [''q''],
                 sentTimes = [1 \<mapsto> 1000000000]\<rparr>)))) [''q''] = [8]"
  using duplicate_send_keeps_first_timestamp [of
      "\<lparr>addCounter = [''q'', ''Add''], updateCounter = [''q'', ''Update''],
        deleteCounter = [''q'', ''Delete''], latencyObserver = [''q''],
        sentTimes = [1 \<mapsto> 1000000000]\<rparr>" "1::nat" 1000000000 "\<lambda>e. Modified" 6000000000
      "\<lparr>adds = Map.empty, latency = Map.empty\<rparr>" 9000000000]
  by (simp add: observed_def)

subsection \<open>A second receive\<close>

text \<open>
  Claim C3. The table is a map, so it holds at most one timestamp for an event:
  \<open>pending w evt\<close> is that timestamp, or \<open>None\<close>. A \<open>receive\<close> that finds the
  timestamp observes one value and removes the entry; a second \<open>receive\<close> of the same
  event changes nothing, whatever the clock reads: two calls give one observation.
\<close>

theorem receive_twice_observes_once:
  "sentTimes m evt = Some t0 \<Longrightarrow>
   (let w1 = receive t2 evt (r, Some m);
        w2 = receive t3 evt w1;
        h = latencyObserver m
    in pending w1 evt = None
     \<and> latency (fst w1) = (latency r)(h \<mapsto> observed r h @ [real_of_int (t2 - t0) / 1000000000])
     \<and> adds (fst w1) = adds r
     \<and> w2 = w1)"
proof -
  assume p: "sentTimes m evt = Some t0"
  have s: "pending (receive t2 evt (r, Some m)) evt = None"
    by (simp add: receive_Some_present [OF p] pending_def)
  show ?thesis
    unfolding Let_def
    by (simp add: s receive_absent [OF s]) (simp add: receive_Some_present [OF p] Observe_def)
qed

theorem receive_twice_observes_once_witness:
  "observed (fst (receive 5000000000 (1::nat) (receive 3500000000 1
          (\<lparr>adds = Map.empty, latency = Map.empty\<rparr>,
           Some \<lparr>addCounter = [''q'', ''Add''], updateCounter = [''q'', ''Update''],
                 deleteCounter = [''q'', ''Delete''], latencyObserver = [''q''],
                 sentTimes = [1 \<mapsto> 1000000000]\<rparr>)))) [''q''] = [5 / 2]"
  using receive_twice_observes_once [of
      "\<lparr>addCounter = [''q'', ''Add''], updateCounter = [''q'', ''Update''],
        deleteCounter = [''q'', ''Delete''], latencyObserver = [''q''],
        sentTimes = [1 \<mapsto> 1000000000]\<rparr>" "1::nat" 1000000000 3500000000
      "\<lparr>adds = Map.empty, latency = Map.empty\<rparr>" 5000000000]
  by (simp add: Let_def observed_def)

subsection \<open>Receive of an event that is not in the table\<close>

text \<open>
  Claim C4. \<open>receive\<close> of an event that the table does not hold (never sent, or
  received already) returns the registry and the tracker as they were: no observation, no
  change of a counter or of the table. \<open>receive\<close> has no failing branch.
\<close>

theorem receive_unknown_is_noop:
  "sentTimes m evt = None \<Longrightarrow> receive now evt (r, Some m) = (r, Some m)"
  by (simp add: receive_def)

theorem receive_unknown_is_noop_witness:
  "receive 4000000000 (2::nat)
     (\<lparr>adds = [[''q'', ''Add''] \<mapsto> 1], latency = [[''q''] \<mapsto> []]\<rparr>,
      Some \<lparr>addCounter = [''q'', ''Add''], updateCounter = [''q'', ''Update''],
            deleteCounter = [''q'', ''Delete''], latencyObserver = [''q''],
            sentTimes = [1 \<mapsto> 1000000000]\<rparr>)
   = (\<lparr>adds = [[''q'', ''Add''] \<mapsto> 1], latency = [[''q''] \<mapsto> []]\<rparr>,
      Some \<lparr>addCounter = [''q'', ''Add''], updateCounter = [''q'', ''Update''],
            deleteCounter = [''q'', ''Delete''], latencyObserver = [''q''],
            sentTimes = [1 \<mapsto> 1000000000]\<rparr>)"
  using receive_unknown_is_noop [of
      "\<lparr>addCounter = [''q'', ''Add''], updateCounter = [''q'', ''Update''],
        deleteCounter = [''q'', ''Delete''], latencyObserver = [''q''],
        sentTimes = [1 \<mapsto> 1000000000]\<rparr>" "2::nat" 4000000000
      "\<lparr>adds = [[''q'', ''Add''] \<mapsto> 1], latency = [[''q''] \<mapsto> []]\<rparr>"]
  by simp

subsection \<open>The nil tracker\<close>

text \<open>
  Claim C5. With the nil receiver, \<open>send\<close> and \<open>receive\<close> return at once: the
  registry (counters and histograms) is unchanged and there is still no tracker.
\<close>

theorem nil_tracker_is_noop:
  "send Type now evt (r, None) = (r, None) \<and> receive now' evt' (r, None) = (r, None)"
  by (simp add: send_def receive_def)

theorem nil_tracker_is_noop_witness:
  "send (\<lambda>e. Added) 1000000000 (1::nat)
       (\<lparr>adds = [[''q'', ''Add''] \<mapsto> 1], latency = Map.empty\<rparr>, None)
     = (\<lparr>adds = [[''q'', ''Add''] \<mapsto> 1], latency = Map.empty\<rparr>, None)
   \<and> receive 2000000000 (1::nat)
       (\<lparr>adds = [[''q'', ''Add''] \<mapsto> 1], latency = Map.empty\<rparr>, None)
     = (\<lparr>adds = [[''q'', ''Add''] \<mapsto> 1], latency = Map.empty\<rparr>, None)"
  by (rule nil_tracker_is_noop)

subsection \<open>Counting by event type\<close>

text \<open>
  Claim C6. For a tracker of the queue \<open>name\<close>, \<open>send\<close> adds one to the counter
  of the event's type (\<open>Added\<close>: the counter labelled Add, \<open>Modified\<close>: Update,
  \<open>Deleted\<close>: Delete) and leaves the two others, every other counter of the registry
  and the histograms as they were. For a type outside the three no counter changes.
  \<open>send\<close> has no failing branch.
\<close>

theorem send_counts_by_type:
  "tracks name m \<Longrightarrow>
   (let r' = fst (send Type now evt (r, Some m));
        a = [name, addLabel]; u = [name, updateLabel]; d = [name, deleteLabel]
    in counter_value r' a = counter_value r a + (if Type evt = Added then 1 else 0)
     \<and> counter_value r' u = counter_value r u + (if Type evt = Modified then 1 else 0)
     \<and> counter_value r' d = counter_value r d + (if Type evt = Deleted then 1 else 0)
     \<and> (\<forall>c. c \<noteq> a \<and> c \<noteq> u \<and> c \<noteq> d \<longrightarrow> adds r' c = adds r c)
     \<and> latency r' = latency r)"
  by (cases "Type evt")
    (simp_all add: tracks_def send_Some Let_def counter_Inc_def counter_value_upd labels_distinct)

theorem send_counts_by_type_witness:
  "counter_value (fst (send (\<lambda>e. Deleted) 1000000000 (1::nat)
       (\<lparr>adds = [[''q'', ''Add''] \<mapsto> 4, [''q'', ''Update''] \<mapsto> 0, [''q'', ''Delete''] \<mapsto> 2],
         latency = [[''q''] \<mapsto> []]\<rparr>,
        Some \<lparr>addCounter = [''q'', ''Add''], updateCounter = [''q'', ''Update''],
              deleteCounter = [''q'', ''Delete''], latencyObserver = [''q''],
              sentTimes = Map.empty\<rparr>))) [''q'', ''Delete''] = 3"
  using send_counts_by_type [of "''q''"
      "\<lparr>addCounter = [''q'', ''Add''], updateCounter = [''q'', ''Update''],
        deleteCounter = [''q'', ''Delete''], latencyObserver = [''q''],
        sentTimes = Map.empty\<rparr>" "\<lambda>e. Deleted" 1000000000 "1::nat"
      "\<lparr>adds = [[''q'', ''Add''] \<mapsto> 4, [''q'', ''Update''] \<mapsto> 0, [''q'', ''Delete''] \<mapsto> 2],
        latency = [[''q''] \<mapsto> []]\<rparr>"]
  by (simp add: tracks_def Let_def addLabel_def updateLabel_def deleteLabel_def counter_value_def)

subsection \<open>Construction\<close>




subsection \<open>The metric schema\<close>

lemma latency_Buckets_value:
  "latency_Buckets =
     Inr [1 / 100000000, 1 / 10000000, 1 / 1000000, 1 / 100000, 1 / 10000, 1 / 1000,
          1 / 100, 1 / 10, 1, 10]"
  by (simp add: latency_Buckets_def ExponentialBuckets_def eval_nat_numeral)

text \<open>
  Claim C8, as stated, fails on the name of the histogram family: the subsystem is
  \<open>broker\<close> and the name \<open>queue_duration_seconds\<close>, so the family is
  \<open>broker_queue_duration_seconds\<close>, with one \<open>queue\<close>.
\<close>

theorem histogram_name_counterexample:
  "fqName latency_opts \<noteq> ''broker_queue_queue_duration_seconds''"
  by (simp add: fqName_def BuildFQName_def latency_opts_def brokerQueueSubsystem_def
      queueLatencyKey_def)

text \<open>
  Claim C8, amended. The counter family is \<open>broker_queue_adds\<close> with the labels
  \<open>name\<close> and \<open>type\<close>; the values of \<open>type\<close> are Add, Update and Delete, and
  \<open>newMetrics name\<close> registers exactly these three counters and one histogram for
  \<open>name\<close> (and nothing when the registry refuses the name). The histogram family is \<open>broker_queue_duration_seconds\<close> with the label
  \<open>name\<close>; its ten bucket bounds start at \<open>1e-8\<close> and grow by the factor ten.
\<close>

theorem metric_schema:
  "fqName adds_opts = ''broker_queue_adds''
   \<and> adds_labels = [''name'', ''type'']
   \<and> [addLabel, updateLabel, deleteLabel] = [''Add'', ''Update'', ''Delete'']
   \<and> (if ValidString name
      then \<exists>r' m. (newMetrics name r :: panic + registry \<times> 'e metrics) = Inr (r', m)
        \<and> dom (adds r') = dom (adds r) \<union> {[name, ''Add''], [name, ''Update''], [name, ''Delete'']}
        \<and> dom (latency r') = dom (latency r) \<union> {[name]}
      else (newMetrics name r :: panic + registry \<times> 'e metrics) = Inl InvalidLabelValue)
   \<and> fqName latency_opts = ''broker_queue_duration_seconds''
   \<and> latency_labels = [''name'']
   \<and> latency_Buckets =
       Inr [1 / 100000000, 1 / 10000000, 1 / 1000000, 1 / 100000, 1 / 10000, 1 / 1000,
            1 / 100, 1 / 10, 1, 10]"
proof -
  have n: "fqName adds_opts = ''broker_queue_adds''"
    by (simp add: fqName_def BuildFQName_def adds_opts_def brokerQueueSubsystem_def addsKey_def)
  have h: "fqName latency_opts = ''broker_queue_duration_seconds''"
    by (simp add: fqName_def BuildFQName_def latency_opts_def brokerQueueSubsystem_def
        queueLatencyKey_def)
  have l: "[addLabel, updateLabel, deleteLabel] = [''Add'', ''Update'', ''Delete'']"
    by (simp add: addLabel_def updateLabel_def deleteLabel_def)
  have d: "if ValidString name
      then \<exists>r' m. (newMetrics name r :: panic + registry \<times> 'e metrics) = Inr (r', m)
        \<and> dom (adds r') = dom (adds r) \<union> {[name, ''Add''], [name, ''Update''], [name, ''Delete'']}
        \<and> dom (latency r') = dom (latency r) \<union> {[name]}
      else (newMetrics name r :: panic + registry \<times> 'e metrics) = Inl InvalidLabelValue"
    by (auto simp add: newMetrics_result newMetrics_invalid_name addLabel_def updateLabel_def
        deleteLabel_def)
  show ?thesis
    using n h l d by (simp add: adds_labels_def latency_labels_def latency_Buckets_value)
qed

subsection \<open>An event of an unrecognized type\<close>

text \<open>
  Claim C10. For an event whose type is none of \<open>Added\<close>, \<open>Modified\<close>,
  \<open>Deleted\<close> and that the table does not hold, \<open>send\<close> leaves the registry as it
  is (no counter changes) and records the reading of the clock; the \<open>receive\<close> that
  follows appends exactly one value to the histogram, the time since that reading in
  seconds, changes no counter and removes the entry.
\<close>

theorem unrecognized_type_is_timed_not_counted:
  "Type evt = Unrecognized k \<Longrightarrow> sentTimes m evt = None \<Longrightarrow>
   (let w1 = send Type t1 evt (r, Some m);
        w2 = receive t2 evt w1;
        h = latencyObserver m
    in fst w1 = r
     \<and> pending w1 evt = Some t1
     \<and> latency (fst w2) = (latency r)(h \<mapsto> observed r h @ [real_of_int (t2 - t1) / 1000000000])
     \<and> adds (fst w2) = adds r
     \<and> pending w2 evt = None)"
proof -
  assume k: "Type evt = Unrecognized k" and p: "sentTimes m evt = None"
  have w1: "send Type t1 evt (r, Some m) = (r, Some (m\<lparr>sentTimes := (sentTimes m)(evt \<mapsto> t1)\<rparr>))"
    by (simp add: send_Some k p)
  have q: "sentTimes (m\<lparr>sentTimes := (sentTimes m)(evt \<mapsto> t1)\<rparr>) evt = Some t1"
    by simp
  show ?thesis
    by (simp add: Let_def w1 receive_Some_present [OF q] pending_def Observe_def)
qed

theorem unrecognized_type_is_timed_not_counted_witness:
  "observed (fst (receive 4000000000 (1::nat)
       (send (\<lambda>e. Unrecognized ''Bookmark'') 1000000000 1
          (\<lparr>adds = Map.empty, latency = Map.empty\<rparr>,
           Some \<lparr>addCounter = [''q'', ''Add''], updateCounter = [''q'', ''Update''],
                 deleteCounter = [''q'', ''Delete''], latencyObserver = [''q''],
                 sentTimes = Map.empty\<rparr>)))) [''q''] = [3]
   \<and> adds (fst (receive 4000000000 (1::nat)
       (send (\<lambda>e. Unrecognized ''Bookmark'') 1000000000 1
          (\<lparr>adds = Map.empty, latency = Map.empty\<rparr>,
           Some \<lparr>addCounter = [''q'', ''Add''], updateCounter = [''q'', ''Update''],
                 deleteCounter = [''q'', ''Delete''], latencyObserver = [''q''],
                 sentTimes = Map.empty\<rparr>)))) = Map.empty"
  using unrecognized_type_is_timed_not_counted [of "\<lambda>e. Unrecognized ''Bookmark''" "1::nat"
      "''Bookmark''"
      "\<lparr>addCounter = [''q'', ''Add''], updateCounter = [''q'', ''Update''],
        deleteCounter = [''q'', ''Delete''], latencyObserver = [''q''],
        sentTimes = Map.empty\<rparr>" 1000000000
      "\<lparr>adds = Map.empty, latency = Map.empty\<rparr>" 4000000000]
  by (simp add: Let_def observed_def)

end
